theory Spec2Isabelle
  imports Main
begin

section \<open>Python values and the object store\<close>

text \<open>
  The storages hand Python objects around by reference: \<open>MemoryStorage.write\<close> keeps
  the very dictionary it is given, and \<open>read\<close> returns it again.  A dictionary is
  therefore an object in a store, and a value that refers to one is an address.
  Scalars and lists are immutable values here; dictionaries are the mutable objects.
  Floats are left out of the value universe.
\<close>

datatype pyval =
    PyNone
  | PyBool bool
  | PyInt int
  | PyStr string
  | PyList "pyval list"
  | PyRef nat

type_synonym pydict = "(string \<times> pyval) list"

text \<open>
  The store is the list of all dictionaries ever created; an address is an index into it.
  Creating a dictionary appends a cell, so a new address is never one already in use.
  Python has no dangling reference: the addresses a program holds are below the length of
  the store, and the statements below say so where they need it.

  A leading underscore of a Python name is dropped: \<open>_transaction_backup\<close> is
  \<open>transaction_backup\<close>, \<open>_cache_modified_count\<close> is
  \<open>cache_modified_count\<close>, \<open>_schemas\<close> is \<open>schemas\<close>, and
  \<open>_handle.name\<close> is \<open>handle_name\<close>.
\<close>

type_synonym heap = "pydict list"

datatype error =
    AttributeError
  | KeyError
  | ValueError
  | JSONDecodeError
  | FileNotFoundError
  | SameFileError
  | TypeError

definition new_dict :: "pydict \<Rightarrow> heap \<Rightarrow> pyval \<times> heap" where
  "new_dict items h = (PyRef (length h), h @ [items])"

text \<open>Python's truth value, as used by \<open>x or y\<close>.\<close>

fun truthy :: "heap \<Rightarrow> pyval \<Rightarrow> bool" where
  "truthy h PyNone = False"
| "truthy h (PyBool b) = b"
| "truthy h (PyInt i) = (i \<noteq> 0)"
| "truthy h (PyStr s) = (s \<noteq> [])"
| "truthy h (PyList vs) = (vs \<noteq> [])"
| "truthy h (PyRef a) = (h ! a \<noteq> [])"

text \<open>\<open>d[k] = v\<close> on an association list: an existing key keeps its place.\<close>

fun setitem :: "string \<Rightarrow> pyval \<Rightarrow> pydict \<Rightarrow> pydict" where
  "setitem k v [] = [(k, v)]"
| "setitem k v ((k', v') # kvs) =
     (if k' = k then (k, v) # kvs else (k', v') # setitem k v kvs)"

text \<open>
  \<open>x.copy()\<close>: a dictionary gives a new dictionary with the same items (the values are
  shared, not copied); a list gives a list of the same elements; the scalars have no such
  method.
\<close>

fun py_copy :: "heap \<Rightarrow> pyval \<Rightarrow> error + (pyval \<times> heap)" where
  "py_copy h (PyRef a) = Inr (new_dict (h ! a) h)"
| "py_copy h (PyList vs) = Inr (PyList vs, h)"
| "py_copy h v = Inl AttributeError"

text \<open>
  \<open>x[k]\<close> and \<open>x[k] = v\<close> with a string \<open>k\<close>, for a caller that holds a
  reference to a dictionary; the other values do not take a string as a subscript.
\<close>

fun py_getitem :: "heap \<Rightarrow> pyval \<Rightarrow> string \<Rightarrow> error + pyval" where
  "py_getitem h (PyRef a) k =
     (case map_of (h ! a) k of None \<Rightarrow> Inl KeyError | Some v \<Rightarrow> Inr v)"
| "py_getitem h v k = Inl TypeError"

fun py_setitem :: "heap \<Rightarrow> pyval \<Rightarrow> string \<Rightarrow> pyval \<Rightarrow> error + heap" where
  "py_setitem h (PyRef a) k v = Inr (h[a := setitem k v (h ! a)])"
| "py_setitem h x k v = Inl TypeError"

subsection \<open>The content of an object, as a tree\<close>

datatype json =
    JNull
  | JBool bool
  | JInt int
  | JStr string
  | JArr "json list"
  | JObj "(string \<times> json) list"

text \<open>
  \<open>reify n h v\<close> reads the value \<open>v\<close> out of the store, following at most \<open>n\<close> nested
  dictionaries.  It is what \<open>json.dump\<close> walks over and what \<open>==\<close> compares: two values
  with equal trees are equal in Python (which, in addition, ignores the order of the keys).
\<close>

fun reify :: "nat \<Rightarrow> heap \<Rightarrow> pyval \<Rightarrow> json option" where
  "reify n h PyNone = Some JNull"
| "reify n h (PyBool b) = Some (JBool b)"
| "reify n h (PyInt i) = Some (JInt i)"
| "reify n h (PyStr s) = Some (JStr s)"
| "reify n h (PyList vs) = map_option JArr (those (map (reify n h) vs))"
| "reify 0 h (PyRef a) = None"
| "reify (Suc n) h (PyRef a) =
     (if a < length h
      then map_option JObj
             (those (map (\<lambda>(k, v). map_option (Pair k) (reify n h v)) (h ! a)))
      else None)"


section \<open>The file system\<close>

text \<open>
  A file system maps a path to the bytes of the file there.  Two paths name the same file
  exactly when they are equal.  \<open>copyfile\<close>, \<open>exists\<close> and \<open>remove\<close> are
  \<open>shutil.copyfile\<close>, \<open>os.path.exists\<close> and \<open>os.remove\<close>.
\<close>

type_synonym filesystem = "string \<rightharpoonup> string"

definition copyfile :: "string \<Rightarrow> string \<Rightarrow> filesystem \<Rightarrow> error + filesystem" where
  "copyfile src dst fs =
     (if src = dst then Inl SameFileError
      else case fs src of
             None \<Rightarrow> Inl FileNotFoundError
           | Some bytes \<Rightarrow> Inr (fs(dst \<mapsto> bytes)))"

definition exists :: "string \<Rightarrow> filesystem \<Rightarrow> bool" where
  "exists path fs = (fs path \<noteq> None)"

definition remove :: "string \<Rightarrow> filesystem \<Rightarrow> error + filesystem" where
  "remove path fs =
     (case fs path of None \<Rightarrow> Inl FileNotFoundError | Some _ \<Rightarrow> Inr (fs(path := None)))"

section \<open>Storage\<close>

text \<open>
  Modelled from the spec: \<open>MemoryStorage\<close> (imported from the \<open>tinydb\<close> package, not
  defined in \<open>database_updated.py.py\<close>).  Section 4.1: \<open>read\<close> returns the full
  persisted state, or the absent marker \<open>None\<close> if nothing has ever been written;
  \<open>write\<close> replaces the entire persisted state; \<open>close\<close> releases resources.

  The field \<open>calls\<close> is not a field of the class.  It lists the calls the instance has
  received, so that a statement such as "the wrapped storage is not consulted" or "no
  write is issued" can be made about it.
\<close>

datatype call = Read | Write pyval | Close

record MemoryStorage =
  memory :: pyval
  calls :: "call list"

definition MemoryStorage_init :: MemoryStorage where
  "MemoryStorage_init = \<lparr>memory = PyNone, calls = []\<rparr>"

definition MemoryStorage_read ::
  "'a MemoryStorage_scheme \<Rightarrow> pyval \<times> 'a MemoryStorage_scheme" where
  "MemoryStorage_read s = (memory s, s\<lparr>calls := calls s @ [Read]\<rparr>)"

definition MemoryStorage_write ::
  "pyval \<Rightarrow> 'a MemoryStorage_scheme \<Rightarrow> 'a MemoryStorage_scheme" where
  "MemoryStorage_write data s = s\<lparr>memory := data, calls := calls s @ [Write data]\<rparr>"

definition MemoryStorage_close :: "'a MemoryStorage_scheme \<Rightarrow> 'a MemoryStorage_scheme" where
  "MemoryStorage_close s = s\<lparr>calls := calls s @ [Close]\<rparr>"

subsection \<open>ExtendedMemoryStorage\<close>

record ExtendedMemoryStorage = MemoryStorage +
  transaction_backup :: pyval

definition ExtendedMemoryStorage_init :: ExtendedMemoryStorage where
  "ExtendedMemoryStorage_init = \<lparr>memory = PyNone, calls = [], transaction_backup = PyNone\<rparr>"

text \<open>
  \<open>data = self.read() or {}\<close> takes the stored object itself when it is truthy and a new
  empty dictionary otherwise; \<open>data.copy()\<close> then makes the snapshot.
\<close>

definition ExtendedMemoryStorage_begin_transaction ::
  "heap \<Rightarrow> ExtendedMemoryStorage \<Rightarrow> error + (heap \<times> ExtendedMemoryStorage)" where
  "ExtendedMemoryStorage_begin_transaction h s =
     (let (r, s1) = MemoryStorage_read s;
          (data, h1) = (if truthy h r then (r, h) else new_dict [] h)
      in case py_copy h1 data of
           Inl e \<Rightarrow> Inl e
         | Inr (c, h2) \<Rightarrow> Inr (h2, s1\<lparr>transaction_backup := c\<rparr>))"

definition ExtendedMemoryStorage_commit_transaction ::
  "ExtendedMemoryStorage \<Rightarrow> ExtendedMemoryStorage" where
  "ExtendedMemoryStorage_commit_transaction s = s\<lparr>transaction_backup := PyNone\<rparr>"

definition ExtendedMemoryStorage_rollback_transaction ::
  "ExtendedMemoryStorage \<Rightarrow> ExtendedMemoryStorage" where
  "ExtendedMemoryStorage_rollback_transaction s =
     (if transaction_backup s \<noteq> PyNone
      then (MemoryStorage_write (transaction_backup s) s)\<lparr>transaction_backup := PyNone\<rparr>
      else s)"

text \<open>
  \<open>json.dump\<close> and \<open>json.load\<close> belong to the Python library.  The serialiser
  \<open>dumps\<close> and the parser \<open>loads\<close> are parameters; \<open>json.dump\<close> raises on a
  circular reference, which is a walk deeper than the store has objects.  The state of the
  file system after a raise is not modelled.
\<close>

definition ExtendedMemoryStorage_backup ::
  "(json \<Rightarrow> string) \<Rightarrow> heap \<Rightarrow> filesystem \<Rightarrow> ExtendedMemoryStorage \<Rightarrow> string
     \<Rightarrow> error + (filesystem \<times> ExtendedMemoryStorage)" where
  "ExtendedMemoryStorage_backup dumps h fs s backup_path =
     (let (data, s1) = MemoryStorage_read s
      in if data \<noteq> PyNone
         then (case reify (length h) h data of
                 None \<Rightarrow> Inl ValueError
               | Some j \<Rightarrow> Inr (fs(backup_path \<mapsto> dumps j), s1))
         else Inr (fs, s1))"


subsection \<open>ExtendedJSONStorage\<close>

text \<open>
  Modelled from the spec: \<open>JSONStorage\<close> (imported from the \<open>tinydb\<close> package, not
  defined in \<open>database_updated.py.py\<close>).  Section 4.1 and section 6: the primary file
  holds the state as a single serialised document; \<open>read\<close> returns the absent marker for
  an empty or nonexistent file and the parsed content otherwise; \<open>write\<close> replaces the
  content of the file by the serialised state; constructing the storage creates the file
  if it is missing.  The file storage never keeps a reference to an object it was given,
  so its values are trees: \<open>write\<close> takes the tree that \<open>json.dumps\<close> walks, and
  \<open>read\<close> returns the tree from which \<open>json.load\<close> builds new objects.
\<close>

record JSONStorage =
  handle_name :: string

record ExtendedJSONStorage = JSONStorage +
  transaction_backup_path :: string

definition JSONStorage_read ::
  "(string \<Rightarrow> json option) \<Rightarrow> filesystem \<Rightarrow> 'a JSONStorage_scheme \<Rightarrow> error + json option" where
  "JSONStorage_read loads fs s =
     (case fs (handle_name s) of
        None \<Rightarrow> Inr None
      | Some bytes \<Rightarrow>
          if bytes = [] then Inr None
          else (case loads bytes of None \<Rightarrow> Inl JSONDecodeError | Some j \<Rightarrow> Inr (Some j)))"

definition JSONStorage_write ::
  "(json \<Rightarrow> string) \<Rightarrow> json \<Rightarrow> filesystem \<Rightarrow> 'a JSONStorage_scheme \<Rightarrow> filesystem" where
  "JSONStorage_write dumps data fs s = fs(handle_name s \<mapsto> dumps data)"

definition ExtendedJSONStorage_init ::
  "string \<Rightarrow> filesystem \<Rightarrow> filesystem \<times> ExtendedJSONStorage" where
  "ExtendedJSONStorage_init path fs =
     ((if exists path fs then fs else fs(path \<mapsto> [])),
      \<lparr>handle_name = path, transaction_backup_path = path @ ''.bak''\<rparr>)"

definition ExtendedJSONStorage_begin_transaction ::
  "filesystem \<Rightarrow> ExtendedJSONStorage \<Rightarrow> error + filesystem" where
  "ExtendedJSONStorage_begin_transaction fs s =
     copyfile (handle_name s) (transaction_backup_path s) fs"

definition ExtendedJSONStorage_commit_transaction ::
  "filesystem \<Rightarrow> ExtendedJSONStorage \<Rightarrow> error + filesystem" where
  "ExtendedJSONStorage_commit_transaction fs s =
     (if exists (transaction_backup_path s) fs
      then remove (transaction_backup_path s) fs
      else Inr fs)"

definition ExtendedJSONStorage_rollback_transaction ::
  "filesystem \<Rightarrow> ExtendedJSONStorage \<Rightarrow> error + filesystem" where
  "ExtendedJSONStorage_rollback_transaction fs s =
     (if exists (transaction_backup_path s) fs
      then (case copyfile (transaction_backup_path s) (handle_name s) fs of
              Inl e \<Rightarrow> Inl e
            | Inr fs1 \<Rightarrow> remove (transaction_backup_path s) fs1)
      else Inr fs)"

definition ExtendedJSONStorage_backup ::
  "filesystem \<Rightarrow> ExtendedJSONStorage \<Rightarrow> string \<Rightarrow> error + filesystem" where
  "ExtendedJSONStorage_backup fs s backup_path = copyfile (handle_name s) backup_path fs"


section \<open>Middlewares\<close>

text \<open>
  \<open>Middleware.__init__\<close> creates the wrapped storage with \<open>storage_cls()\<close>; the
  constructors below take the object so created.  The wrapped storage is a
  \<open>MemoryStorage\<close> or an extension of it, such as \<open>ExtendedMemoryStorage\<close>.  \<open>WRITE_CACHE_SIZE\<close> is a class
  attribute read through \<open>self\<close>, so an instance or a subclass may set its own value;
  it is a field here, 1000 unless set.
\<close>

record 'a Middleware =
  storage :: "'a MemoryStorage_scheme"

record 'a CachingMiddleware = "'a Middleware" +
  cache :: pyval
  cache_modified_count :: int
  WRITE_CACHE_SIZE :: int

definition Middleware_read ::
  "('a, 'b) Middleware_scheme \<Rightarrow> pyval \<times> ('a, 'b) Middleware_scheme" where
  "Middleware_read mw =
     (let (v, s') = MemoryStorage_read (storage mw) in (v, mw\<lparr>storage := s'\<rparr>))"

definition Middleware_write ::
  "pyval \<Rightarrow> ('a, 'b) Middleware_scheme \<Rightarrow> ('a, 'b) Middleware_scheme" where
  "Middleware_write data mw = mw\<lparr>storage := MemoryStorage_write data (storage mw)\<rparr>"

definition Middleware_close :: "('a, 'b) Middleware_scheme \<Rightarrow> ('a, 'b) Middleware_scheme" where
  "Middleware_close mw = mw\<lparr>storage := MemoryStorage_close (storage mw)\<rparr>"

definition CachingMiddleware_init :: "'a MemoryStorage_scheme \<Rightarrow> 'a CachingMiddleware" where
  "CachingMiddleware_init s =
     \<lparr>storage = s, cache = PyNone, cache_modified_count = 0, WRITE_CACHE_SIZE = 1000\<rparr>"

definition CachingMiddleware_read ::
  "'a CachingMiddleware \<Rightarrow> pyval \<times> 'a CachingMiddleware" where
  "CachingMiddleware_read mw =
     (let mw1 = (if cache mw = PyNone
                 then (let (v, mw') = Middleware_read mw in mw'\<lparr>cache := v\<rparr>)
                 else mw)
      in (cache mw1, mw1))"

definition CachingMiddleware_flush :: "'a CachingMiddleware \<Rightarrow> 'a CachingMiddleware" where
  "CachingMiddleware_flush mw =
     (if cache_modified_count mw > 0
      then (Middleware_write (cache mw) mw)\<lparr>cache_modified_count := 0\<rparr>
      else mw)"

definition CachingMiddleware_write ::
  "pyval \<Rightarrow> 'a CachingMiddleware \<Rightarrow> 'a CachingMiddleware" where
  "CachingMiddleware_write data mw =
     (let mw1 = mw\<lparr>cache := data, cache_modified_count := cache_modified_count mw + 1\<rparr>
      in if cache_modified_count mw1 \<ge> WRITE_CACHE_SIZE mw1
         then CachingMiddleware_flush mw1
         else mw1)"

definition CachingMiddleware_close :: "'a CachingMiddleware \<Rightarrow> 'a CachingMiddleware" where
  "CachingMiddleware_close mw = Middleware_close (CachingMiddleware_flush mw)"

text \<open>
  Attribute lookup on an instance of \<open>CachingMiddleware\<close>: the instance's own
  attributes, then the names bound in the body of \<open>CachingMiddleware\<close>, then those of
  its base \<open>Middleware\<close>.  Neither class defines \<open>__getattr__\<close>, so any other name
  (those every \<open>object\<close> has apart) raises \<open>AttributeError\<close>.
\<close>

definition Middleware_attrs :: "string list" where
  "Middleware_attrs = [''__init__'', ''read'', ''write'', ''close'']"

definition CachingMiddleware_attrs :: "string list" where
  "CachingMiddleware_attrs =
     [''WRITE_CACHE_SIZE'', ''__init__'', ''read'', ''write'', ''flush'', ''close'']"

definition CachingMiddleware_instance_attrs :: "string list" where
  "CachingMiddleware_instance_attrs = [''storage'', ''cache'', ''_cache_modified_count'']"

definition CachingMiddleware_hasattr :: "string \<Rightarrow> bool" where
  "CachingMiddleware_hasattr name =
     (name \<in> set (CachingMiddleware_instance_attrs @ CachingMiddleware_attrs @ Middleware_attrs))"

text \<open>
  A call \<open>mw.name(*args)\<close> with values as arguments.  \<open>read\<close>, \<open>flush\<close> and
  \<open>close\<close> take no argument and \<open>write\<close> takes one; a name that is found but is
  not one of these four is a data attribute, or \<open>__init__\<close>, which calls its argument:
  with values as arguments both raise \<open>TypeError\<close>, as a wrong number of arguments does.
\<close>

definition CachingMiddleware_call ::
  "string \<Rightarrow> pyval list \<Rightarrow> 'a CachingMiddleware \<Rightarrow> error + (pyval \<times> 'a CachingMiddleware)" where
  "CachingMiddleware_call name args mw =
     (if \<not> CachingMiddleware_hasattr name then Inl AttributeError
      else if name = ''read'' \<and> args = [] then Inr (CachingMiddleware_read mw)
      else if name = ''write'' \<and> length args = 1
        then Inr (PyNone, CachingMiddleware_write (hd args) mw)
      else if name = ''flush'' \<and> args = [] then Inr (PyNone, CachingMiddleware_flush mw)
      else if name = ''close'' \<and> args = [] then Inr (PyNone, CachingMiddleware_close mw)
      else Inl TypeError)"

section \<open>TinyDB\<close>

text \<open>
  Of the facade only the schema table is needed: \<open>set_schema\<close> and
  \<open>validate_document\<close> touch no other field.  A schema and a document are
  dictionaries, and only their keys are looked at.
\<close>

record TinyDB =
  schemas :: "string \<rightharpoonup> pydict"

definition TinyDB_init :: TinyDB where
  "TinyDB_init = \<lparr>schemas = Map.empty\<rparr>"

definition set_schema :: "string \<Rightarrow> pydict \<Rightarrow> TinyDB \<Rightarrow> TinyDB" where
  "set_schema table_name schema db = db\<lparr>schemas := (schemas db)(table_name \<mapsto> schema)\<rparr>"

definition validate_document :: "TinyDB \<Rightarrow> string \<Rightarrow> pydict \<Rightarrow> bool" where
  "validate_document db table_name document =
     (let schema = (case schemas db table_name of None \<Rightarrow> [] | Some sch \<Rightarrow> sch)
      in list_all (\<lambda>field. field \<in> set (map fst document)) (map fst schema))"


section \<open>Notions used in the statements\<close>

subsection \<open>Sequences of operations on the caching middleware\<close>

text \<open>
  A caller's sequence of \<open>read()\<close>, \<open>write(data)\<close> and \<open>flush()\<close> calls, run in
  order; \<open>reads s\<close> are the \<open>read\<close> calls a storage has received.
\<close>

datatype mw_op = Op_read | Op_write pyval | Op_flush

fun CachingMiddleware_step :: "mw_op \<Rightarrow> 'a CachingMiddleware \<Rightarrow> 'a CachingMiddleware" where
  "CachingMiddleware_step Op_read mw = snd (CachingMiddleware_read mw)"
| "CachingMiddleware_step (Op_write data) mw = CachingMiddleware_write data mw"
| "CachingMiddleware_step Op_flush mw = CachingMiddleware_flush mw"

definition reads :: "'a MemoryStorage_scheme \<Rightarrow> call list" where
  "reads s = filter (\<lambda>c. c = Read) (calls s)"

subsection \<open>States, and a caller's update in place\<close>

text \<open>
  A state is a dictionary of the store, or absent (\<open>None\<close>).  \<open>read_state h s\<close> is
  the content of what \<open>read()\<close> returns, as a tree.
\<close>

definition is_state :: "heap \<Rightarrow> pyval \<Rightarrow> bool" where
  "is_state h v = (case v of PyNone \<Rightarrow> True | PyRef a \<Rightarrow> a < length h | _ \<Rightarrow> False)"

definition read_state :: "heap \<Rightarrow> 'a MemoryStorage_scheme \<Rightarrow> json option" where
  "read_state h s = reify (length h) h (fst (MemoryStorage_read s))"

text \<open>
  The read-modify-write of a caller that changes one field of one table, the way
  \<open>TinyDB.drop_table\<close> changes the state it has read before writing it back:
  \<open>d = storage.read(); d[table][field] = value; storage.write(d)\<close>.
\<close>

definition update_field ::
  "string \<Rightarrow> string \<Rightarrow> pyval \<Rightarrow> heap \<Rightarrow> 'a MemoryStorage_scheme
     \<Rightarrow> error + (heap \<times> 'a MemoryStorage_scheme)" where
  "update_field table field val h s =
     (let (d, s1) = MemoryStorage_read s
      in case py_getitem h d table of
           Inl e \<Rightarrow> Inl e
         | Inr t \<Rightarrow>
             (case py_setitem h t field val of
                Inl e \<Rightarrow> Inl e
              | Inr h' \<Rightarrow> Inr (h', MemoryStorage_write d s1)))"

subsection \<open>Nesting depth of a tree\<close>


definition reify_items :: "nat \<Rightarrow> heap \<Rightarrow> pydict \<Rightarrow> (string \<times> json) list option" where
  "reify_items n h kvs = those (map (\<lambda>(k, v). map_option (Pair k) (reify n h v)) kvs)"

subsection \<open>A serialiser and a parser\<close>

text \<open>
  The properties below hold for any serialiser and parser under which the state in
  question survives the round trip.  \<open>json_dumps\<close> and \<open>json_loads\<close> are one such
  pair, used where a concrete one is needed: JSON text with the separators
  \<open>json.dumps\<close> writes, decimal integers, and strings in which only the quotation mark
  and the backslash are escaped.
\<close>

fun digits :: "nat \<Rightarrow> nat \<Rightarrow> string" where
  "digits 0 n = []"
| "digits (Suc f) n =
     (if n < 10 then [''0123456789'' ! n]
      else digits f (n div 10) @ [''0123456789'' ! (n mod 10)])"

definition dumps_int :: "int \<Rightarrow> string" where
  "dumps_int i =
     (if i < 0 then CHR ''-'' # digits (Suc (nat (- i))) (nat (- i))
      else digits (Suc (nat i)) (nat i))"

definition dumps_str :: "string \<Rightarrow> string" where
  "dumps_str s =
     [CHR 0x22]
     @ concat (map (\<lambda>c. if c = CHR 0x22 \<or> c = CHR 0x5C then [CHR 0x5C, c] else [c]) s)
     @ [CHR 0x22]"

fun join :: "string \<Rightarrow> string list \<Rightarrow> string" where
  "join sep [] = []"
| "join sep [x] = x"
| "join sep (x # y # ys) = x @ sep @ join sep (y # ys)"

fun json_dumps :: "json \<Rightarrow> string" where
  "json_dumps JNull = ''null''"
| "json_dumps (JBool b) = (if b then ''true'' else ''false'')"
| "json_dumps (JInt i) = dumps_int i"
| "json_dumps (JStr s) = dumps_str s"
| "json_dumps (JArr js) = ''['' @ join '', '' (map json_dumps js) @ '']''"
| "json_dumps (JObj kjs) =
     ''{'' @ join '', '' (map (\<lambda>(k, j). dumps_str k @ '': '' @ json_dumps j) kjs) @ ''}''"

definition skip_ws :: "string \<Rightarrow> string" where
  "skip_ws s = dropWhile (\<lambda>c. c = CHR '' '') s"

fun loads_str :: "string \<Rightarrow> (string \<times> string) option" where
  "loads_str [] = None"
| "loads_str [c] = (if c = CHR 0x22 then Some ([], []) else None)"
| "loads_str (c # d # r) =
     (if c = CHR 0x22 then Some ([], d # r)
      else if c = CHR 0x5C then map_option (\<lambda>(s, rest). (d # s, rest)) (loads_str r)
      else map_option (\<lambda>(s, rest). (c # s, rest)) (loads_str (d # r)))"

definition is_digit :: "char \<Rightarrow> bool" where
  "is_digit c = (c \<in> set ''0123456789'')"

definition loads_nat :: "string \<Rightarrow> nat \<times> string" where
  "loads_nat s =
     (foldl (\<lambda>a c. 10 * a + length (takeWhile (\<lambda>d. d \<noteq> c) ''0123456789'')) 0
        (takeWhile is_digit s),
      dropWhile is_digit s)"

fun loads_value :: "nat \<Rightarrow> string \<Rightarrow> (json \<times> string) option"
  and loads_elems :: "nat \<Rightarrow> string \<Rightarrow> (json list \<times> string) option"
  and loads_members :: "nat \<Rightarrow> string \<Rightarrow> ((string \<times> json) list \<times> string) option" where
  "loads_value 0 s = None"
| "loads_value (Suc f) s =
     (case skip_ws s of
        [] \<Rightarrow> None
      | c # r \<Rightarrow>
          if c = CHR ''n'' then
            (if take 3 r = ''ull'' then Some (JNull, drop 3 r) else None)
          else if c = CHR ''t'' then
            (if take 3 r = ''rue'' then Some (JBool True, drop 3 r) else None)
          else if c = CHR ''f'' then
            (if take 4 r = ''alse'' then Some (JBool False, drop 4 r) else None)
          else if c = CHR 0x22 then map_option (\<lambda>(x, rest). (JStr x, rest)) (loads_str r)
          else if c = CHR ''['' then
            (if take 1 (skip_ws r) = '']'' then Some (JArr [], drop 1 (skip_ws r))
             else map_option (\<lambda>(js, rest). (JArr js, rest)) (loads_elems f r))
          else if c = CHR ''{'' then
            (if take 1 (skip_ws r) = ''}'' then Some (JObj [], drop 1 (skip_ws r))
             else map_option (\<lambda>(kjs, rest). (JObj kjs, rest)) (loads_members f r))
          else if c = CHR ''-'' \<and> takeWhile is_digit r \<noteq> [] then
            (let (n, rest) = loads_nat r in Some (JInt (- int n), rest))
          else if is_digit c then
            (let (n, rest) = loads_nat (c # r) in Some (JInt (int n), rest))
          else None)"
| "loads_elems 0 s = None"
| "loads_elems (Suc f) s =
     (case loads_value f s of
        None \<Rightarrow> None
      | Some (j, rest) \<Rightarrow>
          (case skip_ws rest of
             [] \<Rightarrow> None
           | c # r \<Rightarrow>
               if c = CHR '','' then
                 map_option (\<lambda>(js, rest'). (j # js, rest')) (loads_elems f r)
               else if c = CHR '']'' then Some ([j], r)
               else None))"
| "loads_members 0 s = None"
| "loads_members (Suc f) s =
     (case skip_ws s of
        [] \<Rightarrow> None
      | q # r \<Rightarrow>
          if q \<noteq> CHR 0x22 then None
          else (case loads_str r of
                  None \<Rightarrow> None
                | Some (k, rest) \<Rightarrow>
                    (case skip_ws rest of
                       [] \<Rightarrow> None
                     | c # r2 \<Rightarrow>
                         if c \<noteq> CHR '':'' then None
                         else (case loads_value f r2 of
                                 None \<Rightarrow> None
                               | Some (j, rest2) \<Rightarrow>
                                   (case skip_ws rest2 of
                                      [] \<Rightarrow> None
                                    | d # r3 \<Rightarrow>
                                        if d = CHR '','' then
                                          map_option (\<lambda>(kjs, rest'). ((k, j) # kjs, rest'))
                                            (loads_members f r3)
                                        else if d = CHR ''}'' then Some ([(k, j)], r3)
                                        else None)))))"

definition json_loads :: "string \<Rightarrow> json option" where
  "json_loads s =
     (case loads_value (Suc (length s)) s of
        None \<Rightarrow> None
      | Some (j, rest) \<Rightarrow> if skip_ws rest = [] then Some j else None)"

subsection \<open>Example objects\<close>

text \<open>
  A store with the state \<open>{'t': {'k': 1}}\<close> at address 1, an empty dictionary at
  address 2 and an earlier snapshot at address 3; a memory storage holding that state with
  a transaction open; the state as a tree; a file system with the primary file of a file
  storage and a shadow copy left by an open transaction.
\<close>

definition example_heap :: heap where
  "example_heap = [[(''k'', PyInt 1)], [(''t'', PyRef 0)], [], [(''t'', PyRef 0)]]"

definition example_storage :: ExtendedMemoryStorage where
  "example_storage = \<lparr>memory = PyRef 1, calls = [], transaction_backup = PyRef 3\<rparr>"

definition example_tree :: json where
  "example_tree = JObj [(''t'', JObj [(''k'', JInt 1)])]"

definition example_fs :: filesystem where
  "example_fs = [''db.json'' \<mapsto> json_dumps example_tree, ''db.json.bak'' \<mapsto> ''{}'']"

definition example_json_storage :: ExtendedJSONStorage where
  "example_json_storage =
     \<lparr>handle_name = ''db.json'', transaction_backup_path = ''db.json.bak''\<rparr>"

section \<open>Objects built from a tree read back as that tree\<close>

lemma reify_items_Nil [simp]: "reify_items n h [] = Some []"
  by (simp add: reify_items_def)




section \<open>The example objects\<close>

lemma example_is_state: "is_state example_heap (memory example_storage)"
  by (simp add: is_state_def example_heap_def example_storage_def)


lemma example_fs_primary:
  "example_fs (handle_name example_json_storage) = Some (json_dumps example_tree)"
  by (simp add: example_fs_def example_json_storage_def)

lemma example_backup_path:
  "transaction_backup_path example_json_storage = handle_name example_json_storage @ ''.bak''"
  by (simp add: example_json_storage_def)


lemma empty_round_trip: "json_loads (json_dumps (JObj [])) = Some (JObj [])"
  by code_simp

lemma empty_dumps: "json_dumps (JObj []) \<noteq> []"
  by code_simp

section \<open>Transactions\<close>

lemma copyfile_ok:
  "src \<noteq> dst \<Longrightarrow> fs src = Some b \<Longrightarrow> copyfile src dst fs = Inr (fs(dst \<mapsto> b))"
  by (simp add: copyfile_def)

lemma begin_transaction_truthy:
  assumes "memory s = PyRef a" and "h ! a \<noteq> []"
  shows "ExtendedMemoryStorage_begin_transaction h s =
           Inr (h @ [h ! a],
                s\<lparr>calls := calls s @ [Read], transaction_backup := PyRef (length h)\<rparr>)"
  using assms
  by (simp add: ExtendedMemoryStorage_begin_transaction_def MemoryStorage_read_def new_dict_def)

lemma begin_transaction_falsy:
  assumes "memory s = PyNone \<or> (\<exists>a. memory s = PyRef a \<and> h ! a = [])"
  shows "ExtendedMemoryStorage_begin_transaction h s =
           Inr (h @ [[], []],
                s\<lparr>calls := calls s @ [Read], transaction_backup := PyRef (Suc (length h))\<rparr>)"
  using assms
  by (auto simp: ExtendedMemoryStorage_begin_transaction_def MemoryStorage_read_def
      new_dict_def nth_append)

lemma begin_transaction_state:
  assumes "is_state h (memory s)"
  shows "\<exists>h' s' c. ExtendedMemoryStorage_begin_transaction h s = Inr (h', s')
         \<and> take (length h) h' = h
         \<and> transaction_backup s' = PyRef c \<and> length h \<le> c \<and> c < length h'
         \<and> h' ! c = (case memory s of PyRef a \<Rightarrow> h ! a | _ \<Rightarrow> [])
         \<and> memory s' = memory s"
proof (cases "memory s = PyNone \<or> (\<exists>a. memory s = PyRef a \<and> h ! a = [])")
  case True
  have "(case memory s of PyRef a \<Rightarrow> h ! a | _ \<Rightarrow> []) = []"
    using True by auto
  with begin_transaction_falsy [OF True] show ?thesis
    by (simp add: nth_append)
next
  case False
  with assms obtain a where a: "memory s = PyRef a" "h ! a \<noteq> []"
    by (auto simp: is_state_def split: pyval.splits)
  from begin_transaction_truthy [OF a] a show ?thesis by simp
qed

text \<open>
  What the constructors establish: a new memory storage holds the absent state, and a new
  file storage has its primary file in place and its shadow path next to it.
\<close>

lemma ExtendedMemoryStorage_init_is_state: "is_state h (memory ExtendedMemoryStorage_init)"
  by (simp add: is_state_def ExtendedMemoryStorage_init_def)

lemma ExtendedJSONStorage_init_opened:
  assumes "ExtendedJSONStorage_init path fs = (fs', js)"
  shows "handle_name js = path"
    and "transaction_backup_path js = handle_name js @ ''.bak''"
    and "fs' (handle_name js) \<noteq> None"
  using assms by (auto simp: ExtendedJSONStorage_init_def exists_def split: if_splits)

subsection \<open>Rollback\<close>

text \<open>
  On the file storage a rollback brings back the bytes the primary file had at
  \<open>begin_transaction\<close>, whatever was written in between, and removes the shadow copy.
\<close>

lemma fold_write_primary:
  "(fold (\<lambda>d fs. JSONStorage_write dumps d fs s) xs fs) p =
     (if p = handle_name s \<and> xs \<noteq> [] then Some (dumps (last xs)) else fs p)"
  by (induction xs arbitrary: fs) (auto simp: JSONStorage_write_def)

lemma ExtendedJSONStorage_rollback_restores:
  assumes "fs (handle_name s) = Some b"
    and "transaction_backup_path s = handle_name s @ ''.bak''"
  shows "\<exists>fs1 fs3.
           ExtendedJSONStorage_begin_transaction fs s = Inr fs1
         \<and> ExtendedJSONStorage_rollback_transaction
             (fold (\<lambda>d fs. JSONStorage_write dumps d fs s) xs fs1) s = Inr fs3
         \<and> fs3 (handle_name s) = fs (handle_name s)
         \<and> fs3 (transaction_backup_path s) = None
         \<and> JSONStorage_read loads fs3 s = JSONStorage_read loads fs s"
proof -
  let ?p = "handle_name s" and ?q = "transaction_backup_path s"
  have ne: "?p \<noteq> ?q" using assms(2) by simp
  let ?fs1 = "fs(?q \<mapsto> b)"
  have b: "ExtendedJSONStorage_begin_transaction fs s = Inr ?fs1"
    using assms(1) ne by (simp add: ExtendedJSONStorage_begin_transaction_def copyfile_ok)
  let ?fs2 = "fold (\<lambda>d fs. JSONStorage_write dumps d fs s) xs ?fs1"
  have q2: "?fs2 ?q = Some b" using ne by (simp add: fold_write_primary)
  let ?fs3 = "(?fs2(?p \<mapsto> b))(?q := None)"
  have r: "ExtendedJSONStorage_rollback_transaction ?fs2 s = Inr ?fs3"
    using q2 ne
    by (simp add: ExtendedJSONStorage_rollback_transaction_def exists_def copyfile_def
        remove_def)
  have p3: "?fs3 ?p = fs ?p" using ne assms(1) by simp
  have "JSONStorage_read loads ?fs3 s = JSONStorage_read loads fs s"
    unfolding JSONStorage_read_def p3 ..
  with b r p3 show ?thesis by (intro exI [of _ ?fs1] exI [of _ ?fs3]) simp
qed

text \<open>
  On the memory storage the snapshot is a new dictionary with the items of the state at
  \<open>begin_transaction\<close>, and a rollback makes it the current state, whatever objects
  were written in between.  The values of those items are the objects the state referred
  to, not copies of them.
\<close>

lemma fold_write_backup:
  "transaction_backup (fold MemoryStorage_write xs s) = transaction_backup s"
  by (induction xs arbitrary: s) (simp_all add: MemoryStorage_write_def)

lemma ExtendedMemoryStorage_rollback_restores_items:
  assumes "memory s = PyRef a" and "h ! a \<noteq> []"
    and "ExtendedMemoryStorage_begin_transaction h s = Inr (h1, s1)"
  shows "memory (ExtendedMemoryStorage_rollback_transaction (fold MemoryStorage_write xs s1))
           = PyRef (length h)
       \<and> h1 ! length h = h ! a"
proof -
  from begin_transaction_truthy [OF assms(1,2)] assms(3)
  have h1: "h1 = h @ [h ! a]"
    and s1: "s1 = s\<lparr>calls := calls s @ [Read], transaction_backup := PyRef (length h)\<rparr>"
    by simp_all
  have "transaction_backup (fold MemoryStorage_write xs s1) = PyRef (length h)"
    by (simp add: fold_write_backup s1)
  then show ?thesis
    by (simp add: ExtendedMemoryStorage_rollback_transaction_def MemoryStorage_write_def h1)
qed

text \<open>
  C1, on the memory storage: the snapshot of \<open>begin_transaction\<close> is made with
  \<open>data.copy()\<close>, which copies the top-level dictionary only.  With the state
  \<open>{'t': {'k': 1}}\<close> in the storage, \<open>begin_transaction()\<close>, then the write
  \<open>d = read(); d['t']['k'] = 2; write(d)\<close>, then \<open>rollback_transaction()\<close>:
  \<open>read()\<close> returns \<open>{'t': {'k': 2}}\<close>, not the state from before the transaction,
  because the snapshot shares the inner dictionary with the state.
\<close>

theorem C1_memory_rollback_keeps_nested_update:
  "read_state [[(''k'', PyInt 1)], [(''t'', PyRef 0)]]
     \<lparr>memory = PyRef 1, calls = [], transaction_backup = PyNone\<rparr>
     = Some (JObj [(''t'', JObj [(''k'', JInt 1)])])
 \<and> ExtendedMemoryStorage_begin_transaction [[(''k'', PyInt 1)], [(''t'', PyRef 0)]]
       \<lparr>memory = PyRef 1, calls = [], transaction_backup = PyNone\<rparr>
     = Inr ([[(''k'', PyInt 1)], [(''t'', PyRef 0)], [(''t'', PyRef 0)]],
            \<lparr>memory = PyRef 1, calls = [Read], transaction_backup = PyRef 2\<rparr>)
 \<and> update_field ''t'' ''k'' (PyInt 2)
       [[(''k'', PyInt 1)], [(''t'', PyRef 0)], [(''t'', PyRef 0)]]
       \<lparr>memory = PyRef 1, calls = [Read], transaction_backup = PyRef 2\<rparr>
     = Inr ([[(''k'', PyInt 2)], [(''t'', PyRef 0)], [(''t'', PyRef 0)]],
            \<lparr>memory = PyRef 1, calls = [Read, Read, Write (PyRef 1)],
               transaction_backup = PyRef 2\<rparr>)
 \<and> read_state [[(''k'', PyInt 2)], [(''t'', PyRef 0)], [(''t'', PyRef 0)]]
       (ExtendedMemoryStorage_rollback_transaction
          \<lparr>memory = PyRef 1, calls = [Read, Read, Write (PyRef 1)],
             transaction_backup = PyRef 2\<rparr>)
     = Some (JObj [(''t'', JObj [(''k'', JInt 2)])])"
  by (simp add: read_state_def MemoryStorage_read_def MemoryStorage_write_def
      ExtendedMemoryStorage_begin_transaction_def ExtendedMemoryStorage_rollback_transaction_def
      update_field_def new_dict_def numeral_3_eq_3 numeral_2_eq_2)

subsection \<open>A second begin\<close>

text \<open>
  C3, as the code has it: \<open>begin_transaction\<close> never looks at whether a transaction is
  open.  On the memory storage, for a state that is absent or a dictionary, it succeeds
  and the snapshot becomes a new object holding the items of the current state (none
  for an absent state), whatever snapshot was held before.  On the file storage, when
  the primary file exists, it succeeds and the shadow copy becomes a copy of the primary
  file, whether or not a shadow copy existed.
\<close>

theorem C3_begin_transaction_replaces_snapshot:
  "(is_state h (memory s) \<longrightarrow>
      (\<exists>h' s' c. ExtendedMemoryStorage_begin_transaction h s = Inr (h', s')
         \<and> take (length h) h' = h
         \<and> transaction_backup s' = PyRef c \<and> length h \<le> c \<and> c < length h'
         \<and> h' ! c = (case memory s of PyRef a \<Rightarrow> h ! a | _ \<Rightarrow> [])
         \<and> memory s' = memory s))
 \<and> (fs (handle_name js) = Some b \<and> transaction_backup_path js = handle_name js @ ''.bak'' \<longrightarrow>
      ExtendedJSONStorage_begin_transaction fs js = Inr (fs(transaction_backup_path js \<mapsto> b)))"
  using begin_transaction_state [of h s]
  by (auto simp: ExtendedJSONStorage_begin_transaction_def copyfile_ok)

theorem C3_begin_transaction_replaces_snapshot_witness:
  "is_state example_heap (memory example_storage)
 \<and> transaction_backup example_storage \<noteq> PyNone
 \<and> ExtendedMemoryStorage_begin_transaction example_heap example_storage =
      Inr (example_heap @ [[(''t'', PyRef 0)]],
           \<lparr>memory = PyRef 1, calls = [Read], transaction_backup = PyRef 4\<rparr>)
 \<and> example_fs (handle_name example_json_storage) = Some (json_dumps example_tree)
 \<and> transaction_backup_path example_json_storage = handle_name example_json_storage @ ''.bak''
 \<and> example_fs (transaction_backup_path example_json_storage) = Some ''{}''
 \<and> ExtendedJSONStorage_begin_transaction example_fs example_json_storage =
      Inr (example_fs(transaction_backup_path example_json_storage \<mapsto> json_dumps example_tree))"
proof -
  note t = C3_begin_transaction_replaces_snapshot
    [where h = example_heap and s = example_storage and fs = example_fs
       and js = example_json_storage and b = "json_dumps example_tree"]
  have c1: "\<exists>h' s' c.
           ExtendedMemoryStorage_begin_transaction example_heap example_storage = Inr (h', s')
         \<and> take (length example_heap) h' = example_heap
         \<and> transaction_backup s' = PyRef c \<and> length example_heap \<le> c \<and> c < length h'
         \<and> h' ! c = (case memory example_storage of PyRef a \<Rightarrow> example_heap ! a | _ \<Rightarrow> [])
         \<and> memory s' = memory example_storage"
    using t example_is_state by blast
  have c2: "ExtendedJSONStorage_begin_transaction example_fs example_json_storage =
      Inr (example_fs(transaction_backup_path example_json_storage \<mapsto> json_dumps example_tree))"
    using t example_fs_primary example_backup_path by blast
  have e1: "ExtendedMemoryStorage_begin_transaction example_heap example_storage =
      Inr (example_heap @ [[(''t'', PyRef 0)]],
           \<lparr>memory = PyRef 1, calls = [Read], transaction_backup = PyRef 4\<rparr>)"
    using c1
    by (simp add: ExtendedMemoryStorage_begin_transaction_def MemoryStorage_read_def
        new_dict_def example_heap_def example_storage_def)
  have e2: "transaction_backup example_storage \<noteq> PyNone" by (simp add: example_storage_def)
  have e3: "example_fs (transaction_backup_path example_json_storage) = Some ''{}''"
    by (simp add: example_fs_def example_json_storage_def)
  show ?thesis
    using example_is_state example_fs_primary example_backup_path c2 e1 e2 e3 by simp
qed

text \<open>
  C3, as stated, fails: a new memory storage after one \<open>begin_transaction()\<close> holds a
  snapshot, and a second \<open>begin_transaction()\<close> returns normally with another
  snapshot; a file storage whose shadow copy exists does the same and leaves the shadow
  copy in place.  No call fails.
\<close>

theorem C3_second_begin_counterexample:
  "ExtendedMemoryStorage_begin_transaction [] ExtendedMemoryStorage_init =
     Inr ([[], []], \<lparr>memory = PyNone, calls = [Read], transaction_backup = PyRef 1\<rparr>)
 \<and> ExtendedMemoryStorage_begin_transaction [[], []]
       \<lparr>memory = PyNone, calls = [Read], transaction_backup = PyRef 1\<rparr> =
     Inr ([[], [], [], []],
          \<lparr>memory = PyNone, calls = [Read, Read], transaction_backup = PyRef 3\<rparr>)
 \<and> ExtendedJSONStorage_begin_transaction [''db.json'' \<mapsto> ''{}'']
       \<lparr>handle_name = ''db.json'', transaction_backup_path = ''db.json.bak''\<rparr> =
     Inr [''db.json'' \<mapsto> ''{}'', ''db.json.bak'' \<mapsto> ''{}'']
 \<and> ExtendedJSONStorage_begin_transaction [''db.json'' \<mapsto> ''{}'', ''db.json.bak'' \<mapsto> ''{}'']
       \<lparr>handle_name = ''db.json'', transaction_backup_path = ''db.json.bak''\<rparr> =
     Inr [''db.json'' \<mapsto> ''{}'', ''db.json.bak'' \<mapsto> ''{}'']"
  by (simp add: ExtendedMemoryStorage_begin_transaction_def ExtendedMemoryStorage_init_def
      MemoryStorage_read_def new_dict_def ExtendedJSONStorage_begin_transaction_def
      copyfile_def)

subsection \<open>Commit\<close>

lemma commit_memory: "memory (ExtendedMemoryStorage_commit_transaction s) = memory s"
  by (simp add: ExtendedMemoryStorage_commit_transaction_def)

lemma json_commit:
  assumes "transaction_backup_path js \<noteq> handle_name js"
  shows "\<exists>fs'. ExtendedJSONStorage_commit_transaction fs js = Inr fs'
       \<and> fs' (handle_name js) = fs (handle_name js)
       \<and> fs' (transaction_backup_path js) = None"
  using assms
  by (auto simp: ExtendedJSONStorage_commit_transaction_def exists_def remove_def)

text \<open>
  C4: \<open>begin_transaction(); write(S2); commit_transaction()\<close> leaves
  \<open>read() == S2\<close> on both storages.  On the memory storage \<open>read()\<close> returns the
  object that was written, the snapshot is dropped, and \<open>commit_transaction\<close> never
  changes \<open>memory\<close> (nor, taking no store, any object).  On the file storage, for a
  state that survives serialisation, \<open>read()\<close> returns it, the primary file is what
  \<open>write\<close> left, and the shadow copy is gone.
\<close>

theorem C4_commit_keeps_written_state:
  "(is_state h (memory s) \<longrightarrow>
      (\<exists>h1 s1. ExtendedMemoryStorage_begin_transaction h s = Inr (h1, s1)
         \<and> fst (MemoryStorage_read
               (ExtendedMemoryStorage_commit_transaction (MemoryStorage_write S2 s1))) = S2
         \<and> transaction_backup
               (ExtendedMemoryStorage_commit_transaction (MemoryStorage_write S2 s1)) = PyNone))
 \<and> memory (ExtendedMemoryStorage_commit_transaction s) = memory s
 \<and> (fs (handle_name js) = Some b \<and> transaction_backup_path js = handle_name js @ ''.bak''
      \<and> loads (dumps T2) = Some T2 \<and> dumps T2 \<noteq> [] \<longrightarrow>
      (\<exists>fs1 fs3. ExtendedJSONStorage_begin_transaction fs js = Inr fs1
         \<and> ExtendedJSONStorage_commit_transaction (JSONStorage_write dumps T2 fs1 js) js
             = Inr fs3
         \<and> JSONStorage_read loads fs3 js = Inr (Some T2)
         \<and> fs3 (handle_name js) = (JSONStorage_write dumps T2 fs1 js) (handle_name js)
         \<and> fs3 (transaction_backup_path js) = None))"
proof (intro conjI impI)
  assume "is_state h (memory s)"
  from begin_transaction_state [OF this]
  obtain h1 s1 where "ExtendedMemoryStorage_begin_transaction h s = Inr (h1, s1)" by blast
  then show "\<exists>h1 s1. ExtendedMemoryStorage_begin_transaction h s = Inr (h1, s1)
         \<and> fst (MemoryStorage_read
               (ExtendedMemoryStorage_commit_transaction (MemoryStorage_write S2 s1))) = S2
         \<and> transaction_backup
               (ExtendedMemoryStorage_commit_transaction (MemoryStorage_write S2 s1)) = PyNone"
    by (simp add: MemoryStorage_read_def MemoryStorage_write_def
        ExtendedMemoryStorage_commit_transaction_def)
next
  show "memory (ExtendedMemoryStorage_commit_transaction s) = memory s"
    by (rule commit_memory)
next
  assume a: "fs (handle_name js) = Some b
      \<and> transaction_backup_path js = handle_name js @ ''.bak''
      \<and> loads (dumps T2) = Some T2 \<and> dumps T2 \<noteq> []"
  let ?p = "handle_name js" and ?q = "transaction_backup_path js"
  have ne: "?q \<noteq> ?p" using a by simp
  let ?fs1 = "fs(?q \<mapsto> b)"
  have b: "ExtendedJSONStorage_begin_transaction fs js = Inr ?fs1"
    using a ne by (simp add: ExtendedJSONStorage_begin_transaction_def copyfile_ok)
  let ?fs2 = "JSONStorage_write dumps T2 ?fs1 js"
  from json_commit [OF ne, of ?fs2] obtain fs3
    where c: "ExtendedJSONStorage_commit_transaction ?fs2 js = Inr fs3"
      and p3: "fs3 ?p = ?fs2 ?p" and q3: "fs3 ?q = None"
    by blast
  have "?fs2 ?p = Some (dumps T2)" by (simp add: JSONStorage_write_def)
  with p3 a have "JSONStorage_read loads fs3 js = Inr (Some T2)"
    by (simp add: JSONStorage_read_def)
  with b c p3 q3
  show "\<exists>fs1 fs3. ExtendedJSONStorage_begin_transaction fs js = Inr fs1
         \<and> ExtendedJSONStorage_commit_transaction (JSONStorage_write dumps T2 fs1 js) js
             = Inr fs3
         \<and> JSONStorage_read loads fs3 js = Inr (Some T2)
         \<and> fs3 (handle_name js) = (JSONStorage_write dumps T2 fs1 js) (handle_name js)
         \<and> fs3 (transaction_backup_path js) = None"
    by (intro exI [of _ ?fs1] exI [of _ fs3]) simp
qed

theorem C4_commit_keeps_written_state_witness:
  "is_state example_heap (memory example_storage)
 \<and> example_fs (handle_name example_json_storage) = Some (json_dumps example_tree)
 \<and> transaction_backup_path example_json_storage = handle_name example_json_storage @ ''.bak''
 \<and> json_loads (json_dumps (JObj [])) = Some (JObj [])
 \<and> json_dumps (JObj []) \<noteq> []
 \<and> (\<exists>h1 s1. ExtendedMemoryStorage_begin_transaction example_heap example_storage
               = Inr (h1, s1)
         \<and> fst (MemoryStorage_read
               (ExtendedMemoryStorage_commit_transaction (MemoryStorage_write (PyRef 2) s1)))
             = PyRef 2)
 \<and> (\<exists>fs1 fs3. ExtendedJSONStorage_begin_transaction example_fs example_json_storage = Inr fs1
         \<and> ExtendedJSONStorage_commit_transaction
              (JSONStorage_write json_dumps (JObj []) fs1 example_json_storage)
              example_json_storage
             = Inr fs3
         \<and> JSONStorage_read json_loads fs3 example_json_storage = Inr (Some (JObj [])))"
proof -
  note t = C4_commit_keeps_written_state
    [where h = example_heap and s = example_storage and ?S2.0 = "PyRef 2"
       and fs = example_fs and js = example_json_storage and b = "json_dumps example_tree"
       and loads = json_loads and dumps = json_dumps and ?T2.0 = "JObj []"]
  have c1: "\<exists>h1 s1. ExtendedMemoryStorage_begin_transaction example_heap example_storage
               = Inr (h1, s1)
         \<and> fst (MemoryStorage_read
               (ExtendedMemoryStorage_commit_transaction (MemoryStorage_write (PyRef 2) s1)))
             = PyRef 2"
    using t example_is_state by blast
  have c2: "\<exists>fs1 fs3.
           ExtendedJSONStorage_begin_transaction example_fs example_json_storage = Inr fs1
         \<and> ExtendedJSONStorage_commit_transaction
              (JSONStorage_write json_dumps (JObj []) fs1 example_json_storage)
              example_json_storage
             = Inr fs3
         \<and> JSONStorage_read json_loads fs3 example_json_storage = Inr (Some (JObj []))"
    using t example_fs_primary example_backup_path empty_round_trip empty_dumps by blast
  show ?thesis
    using example_is_state example_fs_primary example_backup_path empty_round_trip
      empty_dumps c1 c2
    by blast
qed

section \<open>Backup and restore\<close>



text \<open>
  C9, as the code has it: with an absent state \<open>backup(path)\<close> raises nothing.  On the
  memory storage it returns normally and leaves the file system as it was, so no backup
  file is produced.  On the file storage an absent state is an empty primary file, and
  \<open>backup\<close> copies it to \<open>path\<close>, for a \<open>path\<close> other than the primary file.
\<close>

theorem C9_backup_of_absent_state_succeeds:
  "(memory s = PyNone \<longrightarrow>
      ExtendedMemoryStorage_backup dumps h fs s p = Inr (fs, s\<lparr>calls := calls s @ [Read]\<rparr>))
 \<and> (fs (handle_name js) = Some [] \<and> p \<noteq> handle_name js \<longrightarrow>
      JSONStorage_read loads fs js = Inr None
    \<and> ExtendedJSONStorage_backup fs js p = Inr (fs(p \<mapsto> [])))"
  by (simp add: ExtendedMemoryStorage_backup_def MemoryStorage_read_def
      ExtendedJSONStorage_backup_def copyfile_def JSONStorage_read_def)

theorem C9_backup_of_absent_state_succeeds_witness:
  "memory ExtendedMemoryStorage_init = PyNone
 \<and> ExtendedMemoryStorage_backup json_dumps [] example_fs ExtendedMemoryStorage_init
       ''backup.json''
     = Inr (example_fs, \<lparr>memory = PyNone, calls = [Read], transaction_backup = PyNone\<rparr>)
 \<and> [''db.json'' \<mapsto> []] (handle_name example_json_storage) = Some []
 \<and> ''backup.json'' \<noteq> handle_name example_json_storage
 \<and> JSONStorage_read json_loads [''db.json'' \<mapsto> []] example_json_storage = Inr None
 \<and> ExtendedJSONStorage_backup [''db.json'' \<mapsto> []] example_json_storage ''backup.json''
     = Inr [''db.json'' \<mapsto> [], ''backup.json'' \<mapsto> []]"
proof -
  have h1: "memory ExtendedMemoryStorage_init = PyNone"
    by (simp add: ExtendedMemoryStorage_init_def)
  have h2: "[''db.json'' \<mapsto> []] (handle_name example_json_storage) = Some []
      \<and> ''backup.json'' \<noteq> handle_name example_json_storage"
    by (simp add: example_json_storage_def)
  note t1 = C9_backup_of_absent_state_succeeds
    [where s = ExtendedMemoryStorage_init and dumps = json_dumps and h = "[]"
       and fs = example_fs and p = "''backup.json''"]
  note t2 = C9_backup_of_absent_state_succeeds
    [where fs = "[''db.json'' \<mapsto> []]" and js = example_json_storage
       and p = "''backup.json''" and loads = json_loads]
  have c1: "ExtendedMemoryStorage_backup json_dumps [] example_fs ExtendedMemoryStorage_init
       ''backup.json''
     = Inr (example_fs,
            ExtendedMemoryStorage_init\<lparr>calls := calls ExtendedMemoryStorage_init @ [Read]\<rparr>)"
    using t1 h1 by blast
  have c2: "JSONStorage_read json_loads [''db.json'' \<mapsto> []] example_json_storage = Inr None
    \<and> ExtendedJSONStorage_backup [''db.json'' \<mapsto> []] example_json_storage ''backup.json''
        = Inr ([''db.json'' \<mapsto> []](''backup.json'' \<mapsto> []))"
    using t2 h2 by blast
  show ?thesis using h1 h2 c1 c2 by (simp add: ExtendedMemoryStorage_init_def)
qed

text \<open>
  C9, as stated, fails: \<open>backup('backup.json')\<close> on a new memory storage, to which
  nothing has been written, returns normally and the file system stays empty.
\<close>

theorem C9_backup_absent_counterexample:
  "ExtendedMemoryStorage_backup json_dumps [] Map.empty ExtendedMemoryStorage_init
       ''backup.json''
     = Inr (Map.empty, \<lparr>memory = PyNone, calls = [Read], transaction_backup = PyNone\<rparr>)"
  by (simp add: ExtendedMemoryStorage_backup_def MemoryStorage_read_def
      ExtendedMemoryStorage_init_def)

section \<open>The caching middleware\<close>

lemma flush_cache [simp]: "cache (CachingMiddleware_flush mw) = cache mw"
  by (simp add: CachingMiddleware_flush_def Middleware_write_def)

lemma flush_reads [simp]: "reads (storage (CachingMiddleware_flush mw)) = reads (storage mw)"
  by (simp add: CachingMiddleware_flush_def Middleware_write_def MemoryStorage_write_def
      reads_def)

lemma write_cache [simp]: "cache (CachingMiddleware_write data mw) = data"
  by (simp add: CachingMiddleware_write_def Let_def)

lemma write_reads [simp]:
  "reads (storage (CachingMiddleware_write data mw)) = reads (storage mw)"
  by (simp add: CachingMiddleware_write_def Let_def)

lemma read_primed: "cache mw \<noteq> PyNone \<Longrightarrow> CachingMiddleware_read mw = (cache mw, mw)"
  by (simp add: CachingMiddleware_read_def)

lemma read_unprimed:
  "cache mw = PyNone \<Longrightarrow>
   CachingMiddleware_read mw =
     (memory (storage mw),
      mw\<lparr>storage := (storage mw)\<lparr>calls := calls (storage mw) @ [Read]\<rparr>,
         cache := memory (storage mw)\<rparr>)"
  by (simp add: CachingMiddleware_read_def Middleware_read_def MemoryStorage_read_def)

lemma step_primed:
  assumes "cache mw \<noteq> PyNone" and "op \<noteq> Op_write PyNone"
  shows "cache (CachingMiddleware_step op mw) \<noteq> PyNone
       \<and> reads (storage (CachingMiddleware_step op mw)) = reads (storage mw)"
  using assms by (cases op) (auto simp: read_primed)

lemma run_primed:
  assumes "cache mw \<noteq> PyNone" and "Op_write PyNone \<notin> set ops"
  shows "cache (fold CachingMiddleware_step ops mw) \<noteq> PyNone
       \<and> reads (storage (fold CachingMiddleware_step ops mw)) = reads (storage mw)"
  using assms
proof (induction ops arbitrary: mw)
  case Nil
  then show ?case by simp
next
  case (Cons op ops)
  have a: "op \<noteq> Op_write PyNone" using Cons.prems(2) by auto
  have b: "Op_write PyNone \<notin> set ops" using Cons.prems(2) by simp
  from step_primed [OF Cons.prems(1) a] Cons.IH [OF _ b, of "CachingMiddleware_step op mw"]
  show ?case by simp
qed

lemma write_below:
  assumes "cache_modified_count mw + 1 < WRITE_CACHE_SIZE mw"
  shows "CachingMiddleware_write data mw =
           mw\<lparr>cache := data, cache_modified_count := cache_modified_count mw + 1\<rparr>"
  using assms by (simp add: CachingMiddleware_write_def Let_def)

lemma write_reaching:
  assumes "cache_modified_count mw + 1 \<ge> WRITE_CACHE_SIZE mw"
    and "0 \<le> cache_modified_count mw"
  shows "CachingMiddleware_write data mw =
           mw\<lparr>storage := MemoryStorage_write data (storage mw), cache := data,
              cache_modified_count := 0\<rparr>"
  using assms
  by (simp add: CachingMiddleware_write_def Let_def CachingMiddleware_flush_def
      Middleware_write_def)

lemma fold_write_below:
  assumes "0 \<le> cache_modified_count mw"
    and "cache_modified_count mw + int (length xs) < WRITE_CACHE_SIZE mw"
  shows "fold CachingMiddleware_write xs mw =
           mw\<lparr>cache := (if xs = [] then cache mw else last xs),
              cache_modified_count := cache_modified_count mw + int (length xs)\<rparr>"
  using assms
proof (induction xs arbitrary: mw)
  case Nil
  then show ?case by simp
next
  case (Cons x xs)
  let ?mw1 = "mw\<lparr>cache := x, cache_modified_count := cache_modified_count mw + 1\<rparr>"
  have w: "CachingMiddleware_write x mw = ?mw1"
    using Cons.prems by (intro write_below) simp
  have "fold CachingMiddleware_write xs ?mw1 =
          ?mw1\<lparr>cache := (if xs = [] then cache ?mw1 else last xs),
               cache_modified_count := cache_modified_count ?mw1 + int (length xs)\<rparr>"
    using Cons.prems by (intro Cons.IH) simp_all
  then show ?case by (simp add: w add.assoc)
qed

text \<open>The counter starts at 0 and no operation makes it negative.\<close>

lemma step_count_nonneg:
  "0 \<le> cache_modified_count mw \<Longrightarrow> 0 \<le> cache_modified_count (CachingMiddleware_step op mw)"
  by (cases op)
    (auto simp: CachingMiddleware_read_def CachingMiddleware_write_def
      CachingMiddleware_flush_def Middleware_read_def Middleware_write_def Let_def
      split: prod.splits)

lemma close_pending:
  "cache_modified_count mw > 0 \<Longrightarrow>
   storage (CachingMiddleware_close mw) =
     (storage mw)\<lparr>memory := cache mw, calls := calls (storage mw) @ [Write (cache mw), Close]\<rparr>"
  by (simp add: CachingMiddleware_close_def CachingMiddleware_flush_def Middleware_close_def
      Middleware_write_def MemoryStorage_write_def MemoryStorage_close_def)

lemma close_clean:
  "\<not> cache_modified_count mw > 0 \<Longrightarrow>
   storage (CachingMiddleware_close mw) = (storage mw)\<lparr>calls := calls (storage mw) @ [Close]\<rparr>"
  by (simp add: CachingMiddleware_close_def CachingMiddleware_flush_def Middleware_close_def
      MemoryStorage_close_def)

lemma close_after_write:
  "0 \<le> cache_modified_count mw \<Longrightarrow>
   memory (storage (CachingMiddleware_close (CachingMiddleware_write x mw))) = x"
  by (simp add: CachingMiddleware_close_def CachingMiddleware_flush_def Middleware_close_def
      Middleware_write_def MemoryStorage_write_def MemoryStorage_close_def
      CachingMiddleware_write_def Let_def)

text \<open>
  C6, as the code has it: the buffer of the caching middleware counts as populated only
  while \<open>cache\<close> is not \<open>None\<close>.  Once it holds a state, every later \<open>read()\<close>
  returns the buffer and the wrapped storage receives no further \<open>read\<close> call, whatever
  reads, flushes and writes of states (not of \<open>None\<close>) come in between.  A read that
  finds a state in the wrapped storage populates the buffer, and so does a write of a state.
  After \<open>write(X)\<close> of a state with the counter, once incremented, still below the
  threshold, \<open>read()\<close> returns \<open>X\<close> and the wrapped storage is untouched, so it
  still holds the value from before.  A read that finds the wrapped storage absent calls
  it and leaves the buffer \<open>None\<close>: the buffer is not populated by it.
\<close>

theorem C6_read_returns_buffer_once_populated:
  "(cache mw \<noteq> PyNone \<and> Op_write PyNone \<notin> set ops \<longrightarrow>
      cache (fold CachingMiddleware_step ops mw) \<noteq> PyNone
    \<and> CachingMiddleware_read (fold CachingMiddleware_step ops mw) =
        (cache (fold CachingMiddleware_step ops mw), fold CachingMiddleware_step ops mw)
    \<and> reads (storage (fold CachingMiddleware_step ops mw)) = reads (storage mw))
 \<and> (cache mw2 = PyNone \<and> memory (storage mw2) \<noteq> PyNone \<longrightarrow>
      cache (snd (CachingMiddleware_read mw2)) = memory (storage mw2)
    \<and> cache (snd (CachingMiddleware_read mw2)) \<noteq> PyNone)
 \<and> (X \<noteq> PyNone \<longrightarrow> cache (CachingMiddleware_write X mw3) \<noteq> PyNone)
 \<and> (X \<noteq> PyNone \<and> cache_modified_count mw3 + 1 < WRITE_CACHE_SIZE mw3 \<longrightarrow>
      fst (CachingMiddleware_read (CachingMiddleware_write X mw3)) = X
    \<and> storage (CachingMiddleware_write X mw3) = storage mw3)
 \<and> (cache mw4 = PyNone \<and> memory (storage mw4) = PyNone \<longrightarrow>
      fst (CachingMiddleware_read mw4) = PyNone
    \<and> cache (snd (CachingMiddleware_read mw4)) = PyNone
    \<and> calls (storage (snd (CachingMiddleware_read mw4))) = calls (storage mw4) @ [Read])"
proof (intro conjI impI)
  assume a: "cache mw4 = PyNone \<and> memory (storage mw4) = PyNone"
  then show "fst (CachingMiddleware_read mw4) = PyNone"
    and "cache (snd (CachingMiddleware_read mw4)) = PyNone"
    and "calls (storage (snd (CachingMiddleware_read mw4))) = calls (storage mw4) @ [Read]"
    by (simp_all add: read_unprimed)
next
  assume a: "cache mw \<noteq> PyNone \<and> Op_write PyNone \<notin> set ops"
  then have r: "cache (fold CachingMiddleware_step ops mw) \<noteq> PyNone
       \<and> reads (storage (fold CachingMiddleware_step ops mw)) = reads (storage mw)"
    using run_primed [of mw ops] by blast
  from r show "cache (fold CachingMiddleware_step ops mw) \<noteq> PyNone" by simp
  from r show "reads (storage (fold CachingMiddleware_step ops mw)) = reads (storage mw)"
    by simp
  from r show "CachingMiddleware_read (fold CachingMiddleware_step ops mw) =
        (cache (fold CachingMiddleware_step ops mw), fold CachingMiddleware_step ops mw)"
    by (simp add: read_primed)
next
  assume a: "cache mw2 = PyNone \<and> memory (storage mw2) \<noteq> PyNone"
  then show "cache (snd (CachingMiddleware_read mw2)) = memory (storage mw2)"
    by (simp add: read_unprimed)
  with a show "cache (snd (CachingMiddleware_read mw2)) \<noteq> PyNone" by simp
next
  assume "X \<noteq> PyNone"
  then show "cache (CachingMiddleware_write X mw3) \<noteq> PyNone" by simp
next
  assume a: "X \<noteq> PyNone \<and> cache_modified_count mw3 + 1 < WRITE_CACHE_SIZE mw3"
  then have w: "CachingMiddleware_write X mw3 =
      mw3\<lparr>cache := X, cache_modified_count := cache_modified_count mw3 + 1\<rparr>"
    using write_below [of mw3 X] by simp
  from a show "fst (CachingMiddleware_read (CachingMiddleware_write X mw3)) = X"
    by (simp add: w read_primed)
  show "storage (CachingMiddleware_write X mw3) = storage mw3"
    by (simp add: w)
qed

theorem C6_read_returns_buffer_once_populated_witness:
  "cache (CachingMiddleware_write (PyRef 0) (CachingMiddleware_init MemoryStorage_init))
     \<noteq> PyNone
 \<and> Op_write PyNone \<notin> set [Op_read, Op_write (PyRef 1), Op_flush, Op_read]
 \<and> fst (CachingMiddleware_read
      (fold CachingMiddleware_step [Op_read, Op_write (PyRef 1), Op_flush, Op_read]
         (CachingMiddleware_write (PyRef 0) (CachingMiddleware_init MemoryStorage_init))))
     = PyRef 1
 \<and> reads (storage
      (fold CachingMiddleware_step [Op_read, Op_write (PyRef 1), Op_flush, Op_read]
         (CachingMiddleware_write (PyRef 0) (CachingMiddleware_init MemoryStorage_init))))
     = []
 \<and> cache (CachingMiddleware_init (MemoryStorage_write (PyRef 0) MemoryStorage_init)) = PyNone
 \<and> cache (snd (CachingMiddleware_read
      (CachingMiddleware_init (MemoryStorage_write (PyRef 0) MemoryStorage_init)))) = PyRef 0
 \<and> cache_modified_count (CachingMiddleware_init MemoryStorage_init) + 1
     < WRITE_CACHE_SIZE (CachingMiddleware_init MemoryStorage_init)
 \<and> fst (CachingMiddleware_read
      (CachingMiddleware_write (PyRef 1) (CachingMiddleware_init MemoryStorage_init)))
     = PyRef 1
 \<and> memory (storage
      (CachingMiddleware_write (PyRef 1) (CachingMiddleware_init MemoryStorage_init)))
     = PyNone
 \<and> cache (CachingMiddleware_init MemoryStorage_init) = PyNone
 \<and> memory (storage (CachingMiddleware_init MemoryStorage_init)) = PyNone
 \<and> cache (snd (CachingMiddleware_read (CachingMiddleware_init MemoryStorage_init))) = PyNone
 \<and> calls (storage (snd (CachingMiddleware_read (CachingMiddleware_init MemoryStorage_init))))
     = [Read]"
proof -
  let ?mw = "CachingMiddleware_write (PyRef 0) (CachingMiddleware_init MemoryStorage_init)"
  let ?ops = "[Op_read, Op_write (PyRef 1), Op_flush, Op_read]"
  let ?mw2 = "CachingMiddleware_init (MemoryStorage_write (PyRef 0) MemoryStorage_init)"
  let ?mw3 = "CachingMiddleware_init MemoryStorage_init"
  have mw: "?mw = \<lparr>storage = MemoryStorage_init, cache = PyRef 0, cache_modified_count = 1,
                   WRITE_CACHE_SIZE = 1000\<rparr>"
    by (simp add: CachingMiddleware_write_def CachingMiddleware_init_def Let_def)
  have h1: "cache ?mw \<noteq> PyNone" by simp
  have h2: "Op_write PyNone \<notin> set ?ops" by simp
  have h3: "cache ?mw2 = PyNone \<and> memory (storage ?mw2) \<noteq> PyNone"
    by (simp add: CachingMiddleware_init_def MemoryStorage_write_def)
  have h4: "PyRef 1 \<noteq> PyNone \<and> cache_modified_count ?mw3 + 1 < WRITE_CACHE_SIZE ?mw3"
    by (simp add: CachingMiddleware_init_def)
  have h5: "cache ?mw3 = PyNone \<and> memory (storage ?mw3) = PyNone"
    by (simp add: CachingMiddleware_init_def MemoryStorage_init_def)
  note t = C6_read_returns_buffer_once_populated
    [where mw = ?mw and ops = ?ops and ?mw2.0 = ?mw2 and X = "PyRef 1" and ?mw3.0 = ?mw3
       and ?mw4.0 = ?mw3]
  have c1: "CachingMiddleware_read (fold CachingMiddleware_step ?ops ?mw) =
        (cache (fold CachingMiddleware_step ?ops ?mw), fold CachingMiddleware_step ?ops ?mw)"
    and c2: "reads (storage (fold CachingMiddleware_step ?ops ?mw)) = reads (storage ?mw)"
    using t h1 h2 by blast+
  have c3: "cache (snd (CachingMiddleware_read ?mw2)) = memory (storage ?mw2)"
    using t h3 by blast
  have c4: "fst (CachingMiddleware_read (CachingMiddleware_write (PyRef 1) ?mw3)) = PyRef 1"
    and c5: "storage (CachingMiddleware_write (PyRef 1) ?mw3) = storage ?mw3"
    using t h4 by blast+
  have e1: "cache (fold CachingMiddleware_step ?ops ?mw) = PyRef 1"
    by (simp add: CachingMiddleware_read_def)
  have e2: "reads (storage ?mw) = []"
    unfolding mw by (simp add: reads_def MemoryStorage_init_def)
  have e3: "memory (storage ?mw2) = PyRef 0"
    by (simp add: CachingMiddleware_init_def MemoryStorage_write_def)
  have e4: "memory (storage ?mw3) = PyNone"
    by (simp add: CachingMiddleware_init_def MemoryStorage_init_def)
  have c6: "cache (snd (CachingMiddleware_read ?mw3)) = PyNone"
    and c7: "calls (storage (snd (CachingMiddleware_read ?mw3))) = calls (storage ?mw3) @ [Read]"
    using t h5 by blast+
  have e5: "calls (storage ?mw3) = []"
    by (simp add: CachingMiddleware_init_def MemoryStorage_init_def)
  show ?thesis
    using h1 h2 h3 h4 h5 c1 c2 c3 c4 c5 c6 c7 e1 e2 e3 e4 e5 by simp
qed

text \<open>
  C6, as stated, fails: on a new caching middleware around a new storage the first
  \<open>read()\<close> asks the wrapped storage, which is absent, and leaves \<open>cache\<close> as
  \<open>None\<close>; the second \<open>read()\<close> asks the wrapped storage again, so it has received
  two \<open>read\<close> calls.  If a state is put into the wrapped storage between the two reads,
  the second \<open>read()\<close> returns that state and not what the first read left in the
  buffer.
\<close>

theorem C6_second_read_consults_storage_counterexample:
  "CachingMiddleware_read (CachingMiddleware_init MemoryStorage_init) =
     (PyNone,
      \<lparr>storage = \<lparr>memory = PyNone, calls = [Read]\<rparr>, cache = PyNone,
         cache_modified_count = 0, WRITE_CACHE_SIZE = 1000\<rparr>)
 \<and> CachingMiddleware_read
       \<lparr>storage = \<lparr>memory = PyNone, calls = [Read]\<rparr>, cache = PyNone,
          cache_modified_count = 0, WRITE_CACHE_SIZE = 1000\<rparr> =
     (PyNone,
      \<lparr>storage = \<lparr>memory = PyNone, calls = [Read, Read]\<rparr>, cache = PyNone,
         cache_modified_count = 0, WRITE_CACHE_SIZE = 1000\<rparr>)
 \<and> CachingMiddleware_read
       \<lparr>storage = MemoryStorage_write (PyRef 0) \<lparr>memory = PyNone, calls = [Read]\<rparr>,
          cache = PyNone, cache_modified_count = 0, WRITE_CACHE_SIZE = 1000\<rparr> =
     (PyRef 0,
      \<lparr>storage = \<lparr>memory = PyRef 0, calls = [Read, Write (PyRef 0), Read]\<rparr>,
         cache = PyRef 0, cache_modified_count = 0, WRITE_CACHE_SIZE = 1000\<rparr>)"
  by (simp add: CachingMiddleware_read_def CachingMiddleware_init_def Middleware_read_def
      MemoryStorage_read_def MemoryStorage_write_def MemoryStorage_init_def)

text \<open>
  C7: a write through the caching middleware flushes to the wrapped storage exactly when
  the counter, once incremented, has reached \<open>WRITE_CACHE_SIZE\<close> (1000 unless set), and
  the counter is then 0; otherwise the write leaves the wrapped storage alone.  Starting
  with the counter at 0 and a positive threshold, after exactly \<open>WRITE_CACHE_SIZE\<close>
  writes the wrapped storage holds the last written value, and after
  \<open>WRITE_CACHE_SIZE - 1\<close> writes it is as it was before the sequence.
\<close>

theorem C7_threshold_flush:
  "WRITE_CACHE_SIZE (CachingMiddleware_init s) = 1000
 \<and> (0 \<le> cache_modified_count mw \<longrightarrow>
      CachingMiddleware_write data mw =
        (if cache_modified_count mw + 1 \<ge> WRITE_CACHE_SIZE mw
         then mw\<lparr>storage := MemoryStorage_write data (storage mw), cache := data,
                 cache_modified_count := 0\<rparr>
         else mw\<lparr>cache := data, cache_modified_count := cache_modified_count mw + 1\<rparr>))
 \<and> (cache_modified_count mw = 0 \<and> 0 < WRITE_CACHE_SIZE mw
      \<and> int (length xs) = WRITE_CACHE_SIZE mw \<longrightarrow>
      fst (MemoryStorage_read (storage (fold CachingMiddleware_write xs mw))) = last xs
    \<and> cache_modified_count (fold CachingMiddleware_write xs mw) = 0)
 \<and> (cache_modified_count mw = 0 \<and> 0 < WRITE_CACHE_SIZE mw
      \<and> int (length ys) = WRITE_CACHE_SIZE mw - 1 \<longrightarrow>
      storage (fold CachingMiddleware_write ys mw) = storage mw)"
proof (intro conjI impI)
  show "WRITE_CACHE_SIZE (CachingMiddleware_init s) = 1000"
    by (simp add: CachingMiddleware_init_def)
next
  assume "0 \<le> cache_modified_count mw"
  then show "CachingMiddleware_write data mw =
        (if cache_modified_count mw + 1 \<ge> WRITE_CACHE_SIZE mw
         then mw\<lparr>storage := MemoryStorage_write data (storage mw), cache := data,
                 cache_modified_count := 0\<rparr>
         else mw\<lparr>cache := data, cache_modified_count := cache_modified_count mw + 1\<rparr>)"
    using write_reaching [of mw data] write_below [of mw data] by simp
next
  assume a: "cache_modified_count mw = 0 \<and> 0 < WRITE_CACHE_SIZE mw
      \<and> int (length ys) = WRITE_CACHE_SIZE mw - 1"
  show "storage (fold CachingMiddleware_write ys mw) = storage mw"
    using fold_write_below [of mw ys] a by simp
next
  assume a: "cache_modified_count mw = 0 \<and> 0 < WRITE_CACHE_SIZE mw
      \<and> int (length xs) = WRITE_CACHE_SIZE mw"
  then have "xs \<noteq> []" by auto
  then obtain zs z where xs: "xs = zs @ [z]" by (metis rev_exhaust)
  let ?mw1 = "fold CachingMiddleware_write zs mw"
  have b: "?mw1 = mw\<lparr>cache := (if zs = [] then cache mw else last zs),
              cache_modified_count := cache_modified_count mw + int (length zs)\<rparr>"
    using a xs by (intro fold_write_below) simp_all
  have r: "CachingMiddleware_write z ?mw1 =
           ?mw1\<lparr>storage := MemoryStorage_write z (storage ?mw1), cache := z,
               cache_modified_count := 0\<rparr>"
    using a xs by (intro write_reaching) (simp_all add: b)
  show "fst (MemoryStorage_read (storage (fold CachingMiddleware_write xs mw))) = last xs"
    by (simp add: xs r MemoryStorage_write_def MemoryStorage_read_def)
  show "cache_modified_count (fold CachingMiddleware_write xs mw) = 0"
    by (simp add: xs r)
qed

theorem C7_threshold_flush_witness:
  "0 \<le> cache_modified_count ((CachingMiddleware_init MemoryStorage_init)\<lparr>WRITE_CACHE_SIZE := 3\<rparr>)
 \<and> cache_modified_count ((CachingMiddleware_init MemoryStorage_init)\<lparr>WRITE_CACHE_SIZE := 3\<rparr>) = 0
 \<and> 0 < WRITE_CACHE_SIZE ((CachingMiddleware_init MemoryStorage_init)\<lparr>WRITE_CACHE_SIZE := 3\<rparr>)
 \<and> int (length [PyRef 0, PyRef 1, PyRef 2])
     = WRITE_CACHE_SIZE ((CachingMiddleware_init MemoryStorage_init)\<lparr>WRITE_CACHE_SIZE := 3\<rparr>)
 \<and> int (length [PyRef 0, PyRef 1])
     = WRITE_CACHE_SIZE ((CachingMiddleware_init MemoryStorage_init)\<lparr>WRITE_CACHE_SIZE := 3\<rparr>) - 1
 \<and> fst (MemoryStorage_read (storage (fold CachingMiddleware_write [PyRef 0, PyRef 1, PyRef 2]
      ((CachingMiddleware_init MemoryStorage_init)\<lparr>WRITE_CACHE_SIZE := 3\<rparr>)))) = PyRef 2
 \<and> storage (fold CachingMiddleware_write [PyRef 0, PyRef 1]
      ((CachingMiddleware_init MemoryStorage_init)\<lparr>WRITE_CACHE_SIZE := 3\<rparr>))
     = MemoryStorage_init"
proof -
  let ?mw = "(CachingMiddleware_init MemoryStorage_init)\<lparr>WRITE_CACHE_SIZE := 3\<rparr>"
  let ?xs = "[PyRef 0, PyRef 1, PyRef 2]"
  let ?ys = "[PyRef 0, PyRef 1]"
  have h: "0 \<le> cache_modified_count ?mw \<and> cache_modified_count ?mw = 0
         \<and> 0 < WRITE_CACHE_SIZE ?mw
         \<and> int (length ?xs) = WRITE_CACHE_SIZE ?mw
         \<and> int (length ?ys) = WRITE_CACHE_SIZE ?mw - 1"
    by (simp add: CachingMiddleware_init_def)
  note t = C7_threshold_flush [of MemoryStorage_init ?mw "PyRef 0" ?xs ?ys]
  have c1: "fst (MemoryStorage_read (storage (fold CachingMiddleware_write ?xs ?mw))) = last ?xs"
    using t h by blast
  have c2: "storage (fold CachingMiddleware_write ?ys ?mw) = storage ?mw"
    using t h by blast
  have e: "storage ?mw = MemoryStorage_init" by (simp add: CachingMiddleware_init_def)
  show ?thesis using h c1 c2 e by simp
qed

text \<open>
  C8: \<open>close()\<close> on the caching middleware first flushes: when the counter is greater
  than 0 the wrapped storage receives a \<open>write\<close> of the buffer and then \<open>close\<close>, so
  it holds the buffered value; when the counter is 0 it receives \<open>close\<close> only.  The value
  of the last write is therefore in the wrapped storage right after \<open>close()\<close>.
\<close>

theorem C8_close_flushes:
  "storage (CachingMiddleware_close mw) =
     (if cache_modified_count mw > 0
      then (storage mw)\<lparr>memory := cache mw,
                        calls := calls (storage mw) @ [Write (cache mw), Close]\<rparr>
      else (storage mw)\<lparr>calls := calls (storage mw) @ [Close]\<rparr>)
 \<and> (0 \<le> cache_modified_count mw \<longrightarrow>
      memory (storage (CachingMiddleware_close (CachingMiddleware_write x mw))) = x)"
  using close_pending [of mw] close_clean [of mw] close_after_write [of mw x] by simp

theorem C8_close_flushes_witness:
  "0 \<le> cache_modified_count (CachingMiddleware_init MemoryStorage_init)
 \<and> storage (CachingMiddleware_close
      (CachingMiddleware_write (PyRef 0) (CachingMiddleware_init MemoryStorage_init)))
     = \<lparr>memory = PyRef 0, calls = [Write (PyRef 0), Close]\<rparr>
 \<and> storage (CachingMiddleware_close (CachingMiddleware_init MemoryStorage_init))
     = \<lparr>memory = PyNone, calls = [Close]\<rparr>"
proof -
  let ?mw = "CachingMiddleware_init MemoryStorage_init"
  let ?mw1 = "CachingMiddleware_write (PyRef 0) ?mw"
  have h: "0 \<le> cache_modified_count ?mw" by (simp add: CachingMiddleware_init_def)
  have mw1: "?mw1 = \<lparr>storage = MemoryStorage_init, cache = PyRef 0, cache_modified_count = 1,
                     WRITE_CACHE_SIZE = 1000\<rparr>"
    by (simp add: CachingMiddleware_write_def CachingMiddleware_init_def Let_def)
  have c0: "memory (storage (CachingMiddleware_close ?mw1)) = PyRef 0"
    using C8_close_flushes [of ?mw "PyRef 0"] h by blast
  have c1: "storage (CachingMiddleware_close ?mw1) =
      \<lparr>memory = PyRef 0, calls = [Write (PyRef 0), Close]\<rparr>"
    using C8_close_flushes [of ?mw1 "PyRef 0"]
    unfolding mw1 by (simp add: MemoryStorage_init_def)
  have c2: "storage (CachingMiddleware_close ?mw) = \<lparr>memory = PyNone, calls = [Close]\<rparr>"
    using C8_close_flushes [of ?mw "PyRef 0"]
    by (simp add: CachingMiddleware_init_def MemoryStorage_init_def)
  show ?thesis
    using h c0 c1 c2 by simp
qed

subsection \<open>Transactions and the caching middleware\<close>

text \<open>
  A read that finds the wrapped storage absent leaves the buffer unpopulated, so the next
  read asks the wrapped storage again.
\<close>

lemma read_absent_does_not_populate:
  "cache mw = PyNone \<Longrightarrow> memory (storage mw) = PyNone \<Longrightarrow>
   cache (snd (CachingMiddleware_read mw)) = PyNone"
  by (simp add: read_unprimed)

text \<open>
  C2, as the code has it: the caching middleware defines \<open>read\<close>, \<open>write\<close>,
  \<open>flush\<close> and \<open>close\<close> only.  \<open>begin_transaction\<close>, \<open>commit_transaction\<close> and
  \<open>rollback_transaction\<close> are not attributes of it, and a call of one of them through
  the middleware raises \<open>AttributeError\<close>.  A rollback done on the wrapped storage
  itself leaves the buffer as it was: with a populated buffer, the next \<open>read()\<close>
  through the middleware returns the buffer and changes nothing.
\<close>

theorem C2_transactions_not_forwarded:
  "CachingMiddleware_call ''begin_transaction'' args mw = Inl AttributeError
 \<and> CachingMiddleware_call ''commit_transaction'' args mw = Inl AttributeError
 \<and> CachingMiddleware_call ''rollback_transaction'' args mw = Inl AttributeError
 \<and> (cache mw \<noteq> PyNone \<longrightarrow>
      CachingMiddleware_read
        (mw\<lparr>storage := ExtendedMemoryStorage_rollback_transaction (storage mw)\<rparr>)
      = (cache mw, mw\<lparr>storage := ExtendedMemoryStorage_rollback_transaction (storage mw)\<rparr>))"
  by (simp add: CachingMiddleware_call_def CachingMiddleware_hasattr_def
      CachingMiddleware_attrs_def CachingMiddleware_instance_attrs_def Middleware_attrs_def
      read_primed)

theorem C2_transactions_not_forwarded_witness:
  "cache (CachingMiddleware_write (PyRef 2) (CachingMiddleware_init example_storage)) \<noteq> PyNone
 \<and> fst (CachingMiddleware_read
      ((CachingMiddleware_write (PyRef 2) (CachingMiddleware_init example_storage))
       \<lparr>storage := ExtendedMemoryStorage_rollback_transaction
          (storage (CachingMiddleware_write (PyRef 2)
             (CachingMiddleware_init example_storage)))\<rparr>)) = PyRef 2"
proof -
  let ?mw = "CachingMiddleware_write (PyRef 2) (CachingMiddleware_init example_storage)"
  have h: "cache ?mw \<noteq> PyNone" by simp
  have c: "CachingMiddleware_read
        (?mw\<lparr>storage := ExtendedMemoryStorage_rollback_transaction (storage ?mw)\<rparr>)
      = (cache ?mw, ?mw\<lparr>storage := ExtendedMemoryStorage_rollback_transaction (storage ?mw)\<rparr>)"
    using C2_transactions_not_forwarded [where mw = ?mw and args = "[]"] h by blast
  show ?thesis using h c by simp
qed

text \<open>
  C2, as stated, fails: on a caching middleware around a memory storage, a call of
  \<open>rollback_transaction\<close>, \<open>begin_transaction\<close> or \<open>commit_transaction\<close> raises
  \<open>AttributeError\<close>.  And with the storage holding a state and an open transaction,
  after a write of another state through the middleware and a rollback of the storage,
  \<open>read()\<close> through the middleware still returns the written state, while the storage
  holds the snapshot.
\<close>

theorem C2_rollback_through_middleware_counterexample:
  "CachingMiddleware_call ''rollback_transaction'' []
     (CachingMiddleware_init ExtendedMemoryStorage_init) = Inl AttributeError
 \<and> CachingMiddleware_call ''begin_transaction'' []
     (CachingMiddleware_init ExtendedMemoryStorage_init) = Inl AttributeError
 \<and> CachingMiddleware_call ''commit_transaction'' []
     (CachingMiddleware_init ExtendedMemoryStorage_init) = Inl AttributeError
 \<and> fst (CachingMiddleware_read
      ((CachingMiddleware_write (PyRef 2)
          (CachingMiddleware_init
             \<lparr>memory = PyRef 1, calls = [], transaction_backup = PyRef 3\<rparr>))
       \<lparr>storage := ExtendedMemoryStorage_rollback_transaction
          \<lparr>memory = PyRef 1, calls = [], transaction_backup = PyRef 3\<rparr>\<rparr>)) = PyRef 2
 \<and> memory (ExtendedMemoryStorage_rollback_transaction
      \<lparr>memory = PyRef 1, calls = [], transaction_backup = PyRef 3\<rparr>) = PyRef 3"
  by (simp add: CachingMiddleware_call_def CachingMiddleware_hasattr_def
      CachingMiddleware_attrs_def CachingMiddleware_instance_attrs_def Middleware_attrs_def
      CachingMiddleware_read_def CachingMiddleware_write_def CachingMiddleware_init_def
      ExtendedMemoryStorage_rollback_transaction_def MemoryStorage_write_def Let_def)

section \<open>Schema validation\<close>

lemma schemas_set_schema_other:
  "t \<noteq> table_name \<Longrightarrow> schemas (set_schema t sch db) table_name = schemas db table_name"
  by (simp add: set_schema_def)

lemma schemas_fold_set_schema:
  "table_name \<notin> fst ` set sets \<Longrightarrow>
   schemas (fold (\<lambda>(t, sch). set_schema t sch) sets db) table_name = schemas db table_name"
proof (induction sets arbitrary: db)
  case Nil
  show ?case by simp
next
  case (Cons p sets)
  obtain t sch where p: "p = (t, sch)" by (cases p)
  from Cons.prems p have neq: "t \<noteq> table_name" and rest: "table_name \<notin> fst ` set sets"
    by auto
  show ?case
    using Cons.IH [OF rest, of "set_schema t sch db"] schemas_set_schema_other [OF neq]
    by (simp add: p)
qed

text \<open>
  C10: \<open>validate_document(table, doc)\<close> is true for every document when no schema has
  ever been set for that table: whatever schemas have been set for other tables since the
  database was created, the lookup falls back to the empty dictionary, and the check over
  no field succeeds.
\<close>

theorem C10_validate_document_without_schema:
  assumes "table_name \<notin> fst ` set sets"
  shows "validate_document (fold (\<lambda>(t, sch). set_schema t sch) sets TinyDB_init)
           table_name document"
proof -
  have "schemas (fold (\<lambda>(t, sch). set_schema t sch) sets TinyDB_init) table_name = None"
    using schemas_fold_set_schema [OF assms, of TinyDB_init] by (simp add: TinyDB_init_def)
  then show ?thesis by (simp add: validate_document_def)
qed

theorem C10_validate_document_without_schema_witness:
  "''test'' \<notin> fst ` set [(''users'', [(''name'', PyStr ''str''), (''age'', PyStr ''int'')])]
   \<and> validate_document
       (fold (\<lambda>(t, sch). set_schema t sch)
          [(''users'', [(''name'', PyStr ''str''), (''age'', PyStr ''int'')])] TinyDB_init)
       ''test'' [(''name'', PyStr ''Bob'')]"
proof -
  have h: "''test'' \<notin> fst ` set [(''users'', [(''name'', PyStr ''str''), (''age'', PyStr ''int'')])]"
    by simp
  show ?thesis
    using h C10_validate_document_without_schema [OF h, of "[(''name'', PyStr ''Bob'')]"]
    by blast
qed

end
